theory Spec2Isabelle
  imports Complex_Main
begin

text \<open>
  The repository holds two Python scripts that write names onto a certificate template
  and export every result as a PDF of one landscape page. \<open>script.py\<close> (variant A) draws
  one text; the script in \<open>Certificate for Winners\<close> (variant B) draws a name, an event
  and a rank. Both have the same name normalizer, the same exporter and the same batch
  driver. What the Python runtime and the imaging and PDF libraries do is modelled as far
  as the scripts depend on it; what they answer on a given machine is a parameter.
\<close>

section \<open>Python strings\<close>

text \<open>
  A Python \<open>str\<close> is a sequence of Unicode code points. Names are read from a UTF-8
  file, so they are not limited to ASCII; a code point is a natural number and a string
  a list of them. \<open>str\<close> turns an Isabelle literal into such a string.
\<close>

type_synonym codepoint = nat
type_synonym pystr = "codepoint list"

definition str :: "string \<Rightarrow> pystr" where
  "str s = map of_char s"

text \<open>
  The code points that \<open>str.strip()\<close> and \<open>str.split()\<close> treat as whitespace
  (CPython's \<open>_PyUnicode_IsWhitespace\<close>).
\<close>

definition py_isspace :: "codepoint \<Rightarrow> bool" where
  "py_isspace c \<longleftrightarrow>
     (9 \<le> c \<and> c \<le> 13) \<or> (28 \<le> c \<and> c \<le> 32) \<or> c = 133 \<or> c = 160 \<or> c = 5760 \<or>
     (8192 \<le> c \<and> c \<le> 8202) \<or> c = 8232 \<or> c = 8233 \<or> c = 8239 \<or> c = 8287 \<or>
     c = 12288"

definition py_strip :: "pystr \<Rightarrow> pystr" where
  "py_strip s = rev (dropWhile py_isspace (rev (dropWhile py_isspace s)))"

text \<open>
  \<open>s.split()\<close> with no separator: skip whitespace, take the run of non-whitespace
  that follows as one word, and go on behind it until the string is used up.
\<close>

function py_split :: "pystr \<Rightarrow> pystr list" where
  "py_split s =
     (let rest = dropWhile py_isspace s
      in if rest = [] then []
         else takeWhile (\<lambda>c. \<not> py_isspace c) rest
              # py_split (dropWhile (\<lambda>c. \<not> py_isspace c) rest))"
  by pat_completeness auto
termination
proof (relation "measure length")
  show "wf (measure length)" by simp
next
  fix s rest :: pystr
  assume r: "rest = dropWhile py_isspace s" and ne: "rest \<noteq> []"
  from ne r have "\<not> py_isspace (hd rest)"
    using hd_dropWhile by metis
  with ne have "length (dropWhile (\<lambda>c. \<not> py_isspace c) rest) < length rest"
    by (cases rest) (simp_all add: le_imp_less_Suc length_dropWhile_le)
  also have "length rest \<le> length s"
    using r by (simp add: length_dropWhile_le)
  finally show "(dropWhile (\<lambda>c. \<not> py_isspace c) rest, s) \<in> measure length"
    by simp
qed

declare py_split.simps [simp del]

fun py_join :: "pystr \<Rightarrow> pystr list \<Rightarrow> pystr" where
  "py_join sep [] = []"
| "py_join sep [x] = x"
| "py_join sep (x # y # ys) = x @ sep @ py_join sep (y # ys)"

text \<open>\<open>s.replace(old, new)\<close> for single characters, as the file name code uses it.\<close>

definition py_replace_char :: "codepoint \<Rightarrow> codepoint \<Rightarrow> pystr \<Rightarrow> pystr" where
  "py_replace_char old new s = map (\<lambda>c. if c = old then new else c) s"

subsection \<open>Case mapping\<close>

text \<open>
  \<open>str.capitalize()\<close> maps the first character with the full title-case mapping of the
  Unicode character database and every later character with the lower-case mapping, which
  may look at the character's neighbours (final sigma). Both mappings can give more than
  one character. The tables belong to the Python runtime, not to this repository, so
  they are a parameter of the model.
\<close>

record casing =
  title_full :: "codepoint \<Rightarrow> pystr"
  lower_at :: "pystr \<Rightarrow> nat \<Rightarrow> pystr"

definition capitalize :: "casing \<Rightarrow> pystr \<Rightarrow> pystr" where
  "capitalize db w =
     (case w of
        [] \<Rightarrow> []
      | c # cs \<Rightarrow> title_full db c @ concat (map (lower_at db w) [1..<length w]))"

definition ascii_upper :: "codepoint \<Rightarrow> codepoint" where
  "ascii_upper c = (if 97 \<le> c \<and> c \<le> 122 then c - 32 else c)"

definition ascii_lower :: "codepoint \<Rightarrow> codepoint" where
  "ascii_lower c = (if 65 \<le> c \<and> c \<le> 90 then c + 32 else c)"

text \<open>What every Unicode version fixes for the code points below 128.\<close>

definition ascii_casing :: "casing \<Rightarrow> bool" where
  "ascii_casing db \<longleftrightarrow>
     (\<forall>c. c < 128 \<longrightarrow> title_full db c = [ascii_upper c]) \<and>
     (\<forall>w i. i < length w \<and> w ! i < 128 \<longrightarrow> lower_at db w i = [ascii_lower (w ! i)])"

text \<open>
  A fragment of the tables, enough to run examples: the ASCII letters, and the special
  casing entry of U+0149 (LATIN SMALL LETTER N PRECEDED BY APOSTROPHE), whose title case
  is U+02BC U+004E. Code points the fragment does not list are left as they are.
\<close>

definition ucd_fragment :: casing where
  "ucd_fragment =
     \<lparr> title_full = (\<lambda>c. if c = 329 then [700, 78] else [ascii_upper c]),
       lower_at = (\<lambda>w i. [ascii_lower (w ! i)]) \<rparr>"

section \<open>The name normalizer\<close>

definition title_case_name :: "casing \<Rightarrow> pystr \<Rightarrow> pystr" where
  "title_case_name db name =
     (let words = py_split (py_strip name);
          title_cased_words = map (capitalize db) words
      in py_join [32] title_cased_words)"

subsection \<open>The normalizer in the words of the specification\<close>

text \<open>Trimming: whitespace is removed at the end, then at the start.\<close>

definition trim_spec :: "pystr \<Rightarrow> pystr" where
  "trim_spec s = dropWhile py_isspace (rev (dropWhile py_isspace (rev s)))"

text \<open>
  Splitting on whitespace runs, read left to right: \<open>cur\<close> is the token being collected;
  a whitespace character closes it, and a run of whitespace closes nothing more.
\<close>

fun ws_tokens :: "pystr \<Rightarrow> pystr \<Rightarrow> pystr list" where
  "ws_tokens cur [] = (if cur = [] then [] else [cur])"
| "ws_tokens cur (c # cs) =
     (if py_isspace c then (if cur = [] then ws_tokens [] cs else cur # ws_tokens [] cs)
      else ws_tokens (cur @ [c]) cs)"

text \<open>Rejoining with single spaces: a space before every token, the first one dropped.\<close>

definition join_single_spaces :: "pystr list \<Rightarrow> pystr" where
  "join_single_spaces ts = (if ts = [] then [] else tl (concat (map (\<lambda>t. 32 # t) ts)))"

definition title_case_spec :: "casing \<Rightarrow> pystr \<Rightarrow> pystr" where
  "title_case_spec db s = join_single_spaces (map (capitalize db) (ws_tokens [] (trim_spec s)))"

text \<open>
  Capitalizing a token in the ASCII sense of the specification: the first character
  upper case, the others lower case.
\<close>

definition ascii_capitalize :: "pystr \<Rightarrow> pystr" where
  "ascii_capitalize t = (case t of [] \<Rightarrow> [] | c # cs \<Rightarrow> ascii_upper c # map ascii_lower cs)"

section \<open>The world of a render\<close>

text \<open>
  Numbers that Python computes with \<open>/\<close> are floats. The model computes with the
  real numbers these expressions denote; rounding is outside the model.
\<close>

datatype py_error =
  FileNotFoundError | UnidentifiedImageError | UnicodeDecodeError
  | IndexError | ValueError | ZeroDivisionError | OSError

datatype font = TrueTypeFont pystr int | DefaultFont

text \<open>One call of \<open>draw.text\<close>: position, text, fill colour, font.\<close>

datatype draw_op = DrawText "real \<times> real" pystr pystr font

text \<open>
  An image: its size in pixels, the picture it was loaded from, and the texts drawn
  on it since, in order.
\<close>

record raster =
  img_size :: "int \<times> int"
  picture :: nat
  drawn :: "draw_op list"

record placement =
  at_x :: real
  at_y :: real
  shown_width :: real
  shown_height :: real

record pdf_doc =
  pagesize :: "real \<times> real"
  page_image :: raster
  page_place :: placement

datatype file_data =
  ImageData raster | TextData "pystr list" | PdfData pdf_doc | OtherData

datatype message =
  UsingCustomFont pystr int
  | UsingSystemFont pystr int
  | UsingPILDefaultFont
  | ErrorWithFont py_error
  | FallingBackToDefaultFont
  | ErrorLoadingFont py_error
  | AnErrorOccurred py_error
  | CouldNotDeleteTemp pystr
  | DeleteItManually
  | FoundNames nat pystr
  | Processing nat nat pystr pystr
  | EventAndRank pystr pystr
  | PdfCreated pystr
  | FailedToCreatePdf pystr
  | Summary
  | SummarySuccessful nat nat
  | SummaryFailed nat nat
  | ErrorProcessingNamesFile py_error
  | Usage
  | UsageExample
  | UsingFontSize int
  | ShowImage pystr
  | ShowNamesFile pystr
  | ShowNameSettings int int int
  | ShowEventSettings pystr int int int
  | ShowRankSettings pystr int int int

text \<open>
  The state a render works on: the files on disk, the image objects in memory (an object
  is its index in the list, so a new object never is an old one), the number of
  identifiers drawn so far, and what has been printed.
\<close>

record world =
  files :: "pystr \<rightharpoonup> file_data"
  objects :: "raster list"
  uuid_calls :: nat
  stdout :: "message list"

text \<open>
  What the platform and the libraries answer: the platform name, which paths exist, which
  fonts load at which size, which of the two text measurement functions the drawing
  object has and what they return, the identifiers \<open>uuid4\<close> gives, which files can be
  written and removed, and what \<open>int\<close> makes of a string.
\<close>

record env =
  platform :: pystr
  path_exists :: "pystr \<Rightarrow> bool"
  font_loads :: "pystr \<Rightarrow> int \<Rightarrow> bool"
  has_textsize :: bool
  textsize :: "pystr \<Rightarrow> font \<Rightarrow> py_error + (real \<times> real)"
  getbbox :: "font \<Rightarrow> pystr \<Rightarrow> py_error + (real \<times> real \<times> real \<times> real)"
  uuid8 :: "nat \<Rightarrow> pystr"
  can_save :: "pystr \<Rightarrow> raster \<Rightarrow> bool"
  can_write :: "pystr \<Rightarrow> bool"
  can_remove :: "pystr \<Rightarrow> bool"
  int_of_str :: "pystr \<Rightarrow> int option"

definition print_all :: "message list \<Rightarrow> world \<Rightarrow> world" where
  "print_all ms w = w\<lparr>stdout := stdout w @ ms\<rparr>"

subsection \<open>Images\<close>

definition read_image :: "world \<Rightarrow> pystr \<Rightarrow> py_error + raster" where
  "read_image w path =
     (case files w path of
        None \<Rightarrow> Inl FileNotFoundError
      | Some (ImageData r) \<Rightarrow> Inr r
      | Some _ \<Rightarrow> Inl UnidentifiedImageError)"

text \<open>\<open>Image.open\<close>: a new image object with the content of the file.\<close>

definition image_open :: "world \<Rightarrow> pystr \<Rightarrow> (py_error + nat) \<times> world" where
  "image_open w path =
     (case read_image w path of
        Inl e \<Rightarrow> (Inl e, w)
      | Inr r \<Rightarrow> (Inr (length (objects w)), w\<lparr>objects := objects w @ [r]\<rparr>))"

text \<open>\<open>img.copy()\<close>: a new image object with the content of \<open>img\<close>.\<close>

definition image_copy :: "world \<Rightarrow> nat \<Rightarrow> nat \<times> world" where
  "image_copy w img = (length (objects w), w\<lparr>objects := objects w @ [objects w ! img]\<rparr>)"

text \<open>\<open>draw.text\<close>, where \<open>draw\<close> was made for the image object \<open>img\<close>.\<close>

definition draw_text :: "world \<Rightarrow> nat \<Rightarrow> real \<times> real \<Rightarrow> pystr \<Rightarrow> pystr \<Rightarrow> font \<Rightarrow> world" where
  "draw_text w img pos text fill fnt =
     w\<lparr>objects := (objects w)
          [img := (objects w ! img)\<lparr>drawn := drawn (objects w ! img) @ [DrawText pos text fill fnt]\<rparr>]\<rparr>"

definition save_image :: "env \<Rightarrow> world \<Rightarrow> nat \<Rightarrow> pystr \<Rightarrow> (py_error + unit) \<times> world" where
  "save_image en w img path =
     (if can_save en path (objects w ! img)
      then (Inr (), w\<lparr>files := (files w)(path \<mapsto> ImageData (objects w ! img))\<rparr>)
      else (Inl OSError, w))"

subsection \<open>Fonts\<close>

definition startswith :: "pystr \<Rightarrow> pystr \<Rightarrow> bool" where
  "startswith s prefix \<longleftrightarrow> take (length prefix) s = prefix"

text \<open>The table \<open>system_fonts\<close> and the choice by \<open>sys.platform\<close>.\<close>

definition default_font :: "env \<Rightarrow> pystr" where
  "default_font en =
     (if startswith (platform en) (str ''win'') then str ''arial.ttf''
      else if platform en = str ''darwin'' then str ''/Library/Fonts/Arial.ttf''
      else str ''/usr/share/fonts/truetype/dejavu/DejaVuSans.ttf'')"

definition truetype :: "env \<Rightarrow> pystr \<Rightarrow> int \<Rightarrow> py_error + font" where
  "truetype en path sz = (if font_loads en path sz then Inr (TrueTypeFont path sz) else Inl OSError)"

text \<open>\<open>ImageFont.load_default()\<close>: the face built into the library; it is taken not to fail.\<close>

definition load_default :: font where
  "load_default = DefaultFont"

text \<open>
  The first script, the \<open>else\<close> branch of the font block: the system font, and the
  built-in face when it does not load.
\<close>

definition system_font :: "env \<Rightarrow> int \<Rightarrow> font \<times> message list" where
  "system_font en font_size =
     (case truetype en (default_font en) font_size of
        Inr f \<Rightarrow> (f, [UsingSystemFont (default_font en) font_size])
      | Inl e \<Rightarrow> (load_default, [UsingPILDefaultFont]))"

text \<open>
  The statements inside the outer \<open>try\<close> of the font block. \<open>font_path\<close> counts when it
  is neither \<open>None\<close> nor empty and the path exists. Loading the explicit font can raise
  here; the system font has a handler of its own.
\<close>

definition choose_font :: "env \<Rightarrow> pystr option \<Rightarrow> int \<Rightarrow> py_error + (font \<times> message list)" where
  "choose_font en font_path font_size =
     (case font_path of
        None \<Rightarrow> Inr (system_font en font_size)
      | Some p \<Rightarrow>
         if p \<noteq> [] \<and> path_exists en p
         then (case truetype en p font_size of
                 Inl e \<Rightarrow> Inl e
               | Inr f \<Rightarrow> Inr (f, [UsingCustomFont p font_size]))
         else Inr (system_font en font_size))"

text \<open>The font block of the first script, with the handler of its outer \<open>try\<close>.\<close>

definition resolve_font :: "env \<Rightarrow> pystr option \<Rightarrow> int \<Rightarrow> font \<times> message list" where
  "resolve_font en font_path font_size =
     (case choose_font en font_path font_size of
        Inr r \<Rightarrow> r
      | Inl e \<Rightarrow> (load_default, [ErrorWithFont e, FallingBackToDefaultFont]))"

text \<open>The font block of \<open>add_centered_text\<close> in the second script.\<close>

definition load_system_font :: "env \<Rightarrow> int \<Rightarrow> font \<times> message list" where
  "load_system_font en font_size =
     (case truetype en (default_font en) font_size of
        Inr f \<Rightarrow> (f, [])
      | Inl e \<Rightarrow> (load_default, [ErrorLoadingFont e]))"

subsection \<open>Measuring and centring a text\<close>

definition measure_text :: "env \<Rightarrow> pystr \<Rightarrow> font \<Rightarrow> py_error + (real \<times> real)" where
  "measure_text en text fnt =
     (if has_textsize en then textsize en text fnt
      else (case getbbox en fnt text of
              Inl e \<Rightarrow> Inl e
            | Inr (b0, b1, b2, b3) \<Rightarrow> Inr (b2 - b0, b3 - b1)))"

text \<open>
  Both scripts measure the text, move the x coordinate left by half the width and draw,
  in black, on the image the drawing object was made for.
\<close>

definition draw_centered ::
  "env \<Rightarrow> world \<Rightarrow> nat \<Rightarrow> pystr \<Rightarrow> real \<times> real \<Rightarrow> font \<Rightarrow> (py_error + unit) \<times> world" where
  "draw_centered en w img text position fnt =
     (case measure_text en text fnt of
        Inl e \<Rightarrow> (Inl e, w)
      | Inr (text_width, text_height) \<Rightarrow>
         (let (x, y) = position;
              x_centered = x - text_width / 2
          in (Inr (), draw_text w img (x_centered, y) text (str ''black'') fnt)))"

definition add_centered_text ::
  "env \<Rightarrow> world \<Rightarrow> nat \<Rightarrow> pystr \<Rightarrow> real \<times> real \<Rightarrow> int \<Rightarrow> (py_error + unit) \<times> world" where
  "add_centered_text en w img text position font_size =
     (let (fnt, ms) = load_system_font en font_size
      in draw_centered en (print_all ms w) img text position fnt)"

subsection \<open>Compositing\<close>

text \<open>
  The first script, from \<open>Image.open\<close> to \<open>draw.text\<close>: the result is the image object
  that was drawn on.
\<close>

definition composite ::
  "env \<Rightarrow> world \<Rightarrow> pystr \<Rightarrow> pystr \<Rightarrow> real \<times> real \<Rightarrow> pystr option \<Rightarrow> int
   \<Rightarrow> (py_error + nat) \<times> world" where
  "composite en w image_path text position font_path font_size =
     (case image_open w image_path of
        (Inl e, w1) \<Rightarrow> (Inl e, w1)
      | (Inr img, w1) \<Rightarrow>
         (let (img_copy, w2) = image_copy w1 img;
              (fnt, ms) = resolve_font en font_path font_size
          in case draw_centered en (print_all ms w2) img_copy text position fnt of
               (Inl e, w3) \<Rightarrow> (Inl e, w3)
             | (Inr u, w3) \<Rightarrow> (Inr img_copy, w3)))"

text \<open>The second script: three texts, each with its own position and font size.\<close>

definition composite_texts ::
  "env \<Rightarrow> world \<Rightarrow> pystr \<Rightarrow> pystr \<Rightarrow> real \<times> real \<Rightarrow> int \<Rightarrow> pystr \<Rightarrow> real \<times> real \<Rightarrow> int
   \<Rightarrow> pystr \<Rightarrow> real \<times> real \<Rightarrow> int \<Rightarrow> (py_error + nat) \<times> world" where
  "composite_texts en w image_path name name_position name_font_size
       event_name event_position event_font_size rank rank_position rank_font_size =
     (case image_open w image_path of
        (Inl e, w1) \<Rightarrow> (Inl e, w1)
      | (Inr img, w1) \<Rightarrow>
         (let (img_copy, w2) = image_copy w1 img
          in case add_centered_text en w2 img_copy name name_position name_font_size of
               (Inl e, w3) \<Rightarrow> (Inl e, w3)
             | (Inr u, w3) \<Rightarrow>
                (case add_centered_text en w3 img_copy event_name event_position event_font_size of
                   (Inl e, w4) \<Rightarrow> (Inl e, w4)
                 | (Inr u, w4) \<Rightarrow>
                    (case add_centered_text en w4 img_copy rank rank_position rank_font_size of
                       (Inl e, w5) \<Rightarrow> (Inl e, w5)
                     | (Inr u, w5) \<Rightarrow> (Inr img_copy, w5)))))"

subsection \<open>The page exporter\<close>

definition output_pdf_name :: "pystr \<Rightarrow> pystr" where
  "output_pdf_name text = py_replace_char 32 95 (py_strip text) @ str ''.pdf''"

text \<open>The page sizes of the PDF library, in points.\<close>

definition letter :: "real \<times> real" where
  "letter = (612, 792)"

definition landscape :: "real \<times> real \<Rightarrow> real \<times> real" where
  "landscape pgsize = (let (a, b) = pgsize in if a < b then (b, a) else (a, b))"

text \<open>Scaling and centring the image on the page. A size of zero raises in the division.\<close>

definition place_image :: "real \<times> real \<Rightarrow> int \<times> int \<Rightarrow> py_error + placement" where
  "place_image pgsize sz =
     (let (width, height) = pgsize;
          (img_width, img_height) = sz
      in if img_width = 0 \<or> img_height = 0 then Inl ZeroDivisionError
         else
           (let ratio = min (width / of_int img_width) (height / of_int img_height);
                img_width' = of_int img_width * ratio;
                img_height' = of_int img_height * ratio;
                x_centered = (width - img_width') / 2;
                y_centered = (height - img_height') / 2
            in Inr \<lparr>at_x = x_centered, at_y = y_centered,
                     shown_width = img_width', shown_height = img_height'\<rparr>))"

text \<open>
  From the creation of the canvas to \<open>c.save()\<close>: the temporary image is opened for its
  size, placed, and the page is written under the output name.
\<close>

definition export_pdf :: "env \<Rightarrow> world \<Rightarrow> pystr \<Rightarrow> pystr \<Rightarrow> (py_error + unit) \<times> world" where
  "export_pdf en w temp_image_path output_pdf =
     (let pgsize = landscape letter
      in case image_open w temp_image_path of
           (Inl e, w1) \<Rightarrow> (Inl e, w1)
         | (Inr img, w1) \<Rightarrow>
            (case place_image pgsize (img_size (objects w1 ! img)) of
               Inl e \<Rightarrow> (Inl e, w1)
             | Inr pl \<Rightarrow>
                (case read_image w1 temp_image_path of
                   Inl e \<Rightarrow> (Inl e, w1)
                 | Inr r \<Rightarrow>
                    if can_write en output_pdf
                    then (Inr (),
                          w1\<lparr>files := (files w1)(output_pdf \<mapsto>
                                PdfData \<lparr>pagesize = pgsize, page_image = r, page_place = pl\<rparr>)\<rparr>)
                    else (Inl OSError, w1))))"

definition remove_temp :: "env \<Rightarrow> world \<Rightarrow> pystr \<Rightarrow> world" where
  "remove_temp en w temp_image_path =
     (if files w temp_image_path \<noteq> None \<and> can_remove en temp_image_path
      then w\<lparr>files := (files w)(temp_image_path := None)\<rparr>
      else print_all [CouldNotDeleteTemp temp_image_path, DeleteItManually] w)"

subsection \<open>A render\<close>

definition temp_name :: "pystr \<Rightarrow> pystr" where
  "temp_name unique_id = str ''temp_with_text_'' @ unique_id @ str ''.jpg''"

text \<open>The handler of the outermost \<open>try\<close>: the error is printed and the result is \<open>None\<close>.\<close>

definition render_failed :: "py_error \<Rightarrow> world \<Rightarrow> pystr option \<times> world" where
  "render_failed e w = (None, print_all [AnErrorOccurred e] w)"

text \<open>After compositing both scripts go on alike: save, export, clean up.\<close>

definition save_and_export ::
  "env \<Rightarrow> world \<Rightarrow> nat \<Rightarrow> pystr \<Rightarrow> pystr \<Rightarrow> pystr option \<times> world" where
  "save_and_export en w img_copy temp_image_path text =
     (case save_image en w img_copy temp_image_path of
        (Inl e, w1) \<Rightarrow> render_failed e w1
      | (Inr u, w1) \<Rightarrow>
         (let output_pdf = output_pdf_name text
          in case export_pdf en w1 temp_image_path output_pdf of
               (Inl e, w2) \<Rightarrow> render_failed e w2
             | (Inr u, w2) \<Rightarrow> (Some output_pdf, remove_temp en w2 temp_image_path)))"

definition add_text_to_image_and_convert_to_pdf ::
  "env \<Rightarrow> world \<Rightarrow> pystr \<Rightarrow> pystr \<Rightarrow> real \<times> real \<Rightarrow> pystr option \<Rightarrow> int
   \<Rightarrow> pystr option \<times> world" where
  "add_text_to_image_and_convert_to_pdf en w image_path text position font_path font_size =
     (let unique_id = uuid8 en (uuid_calls w);
          w0 = w\<lparr>uuid_calls := Suc (uuid_calls w)\<rparr>;
          temp_image_path = temp_name unique_id
      in case composite en w0 image_path text position font_path font_size of
           (Inl e, w1) \<Rightarrow> render_failed e w1
         | (Inr img_copy, w1) \<Rightarrow> save_and_export en w1 img_copy temp_image_path text)"

definition add_texts_to_image_and_convert_to_pdf ::
  "env \<Rightarrow> world \<Rightarrow> pystr \<Rightarrow> pystr \<Rightarrow> real \<times> real \<Rightarrow> int \<Rightarrow> pystr \<Rightarrow> real \<times> real \<Rightarrow> int
   \<Rightarrow> pystr \<Rightarrow> real \<times> real \<Rightarrow> int \<Rightarrow> pystr option \<times> world" where
  "add_texts_to_image_and_convert_to_pdf en w image_path name name_position name_font_size
       event_name event_position event_font_size rank rank_position rank_font_size =
     (let unique_id = uuid8 en (uuid_calls w);
          w0 = w\<lparr>uuid_calls := Suc (uuid_calls w)\<rparr>;
          temp_image_path = temp_name unique_id
      in case composite_texts en w0 image_path name name_position name_font_size
                event_name event_position event_font_size rank rank_position rank_font_size of
           (Inl e, w1) \<Rightarrow> render_failed e w1
         | (Inr img_copy, w1) \<Rightarrow> save_and_export en w1 img_copy temp_image_path name)"

section \<open>The batch driver\<close>

text \<open>
  Opening the names file and iterating over it gives its lines, or raises when the file
  is missing or is not text.
\<close>

definition read_lines :: "world \<Rightarrow> pystr \<Rightarrow> py_error + pystr list" where
  "read_lines w names_file =
     (case files w names_file of
        None \<Rightarrow> Inl FileNotFoundError
      | Some (TextData ls) \<Rightarrow> Inr ls
      | Some _ \<Rightarrow> Inl UnicodeDecodeError)"

text \<open>
  What the driver leaves behind: the counters at its end, the number of names when the
  file was read, and what the driver itself printed. What the renders print is in the
  world.
\<close>

record batch_report =
  final_successful :: nat
  final_failed :: nat
  final_total :: "nat option"
  transcript :: "message list"

text \<open>
  One round of the loop. \<open>render\<close> is the call of the render function with the
  arguments that are the same for every name; \<open>extra\<close> is what the second script
  prints in addition. A result counts as success when it is neither \<open>None\<close> nor empty.
\<close>

definition process_item ::
  "('w \<Rightarrow> pystr \<Rightarrow> pystr option \<times> 'w) \<Rightarrow> casing \<Rightarrow> message list \<Rightarrow> nat \<Rightarrow> nat \<Rightarrow> pystr
   \<Rightarrow> 'w \<times> nat \<times> nat \<times> message list \<Rightarrow> 'w \<times> nat \<times> nat \<times> message list" where
  "process_item render db extra total_names i raw_name st =
     (let (w, successful, failed, out) = st;
          properly_cased_name = title_case_name db raw_name;
          out1 = out @ Processing i total_names raw_name properly_cased_name # extra;
          (result, w1) = render w properly_cased_name;
          on_failure = (w1, successful, Suc failed, out1 @ [FailedToCreatePdf properly_cased_name])
      in case result of
           None \<Rightarrow> on_failure
         | Some pdf \<Rightarrow>
            if pdf = [] then on_failure
            else (w1, Suc successful, failed, out1 @ [PdfCreated pdf]))"

fun process_items ::
  "('w \<Rightarrow> pystr \<Rightarrow> pystr option \<times> 'w) \<Rightarrow> casing \<Rightarrow> message list \<Rightarrow> nat \<Rightarrow> nat \<Rightarrow> pystr list
   \<Rightarrow> 'w \<times> nat \<times> nat \<times> message list \<Rightarrow> 'w \<times> nat \<times> nat \<times> message list" where
  "process_items render db extra total_names i [] st = st"
| "process_items render db extra total_names i (raw_name # rest) st =
     process_items render db extra total_names (Suc i) rest
       (process_item render db extra total_names i raw_name st)"

text \<open>
  The driver of both scripts. \<open>content\<close> is what opening and reading the names file
  gave.
\<close>

definition process_names_from_file ::
  "('w \<Rightarrow> pystr \<Rightarrow> pystr option \<times> 'w) \<Rightarrow> casing \<Rightarrow> message list \<Rightarrow> pystr
   \<Rightarrow> 'w \<Rightarrow> py_error + pystr list \<Rightarrow> 'w \<times> batch_report" where
  "process_names_from_file render db extra names_file w content =
     (case content of
        Inl e \<Rightarrow>
          (w, \<lparr>final_successful = 0, final_failed = 0, final_total = None,
               transcript = [ErrorProcessingNamesFile e]\<rparr>)
      | Inr ls \<Rightarrow>
          (let names = [py_strip line. line \<leftarrow> ls, py_strip line \<noteq> []];
               total_names = length names;
               (w', successful, failed, out) =
                 process_items render db extra total_names 1 names
                   (w, 0, 0, [FoundNames total_names names_file])
           in (w', \<lparr>final_successful = successful, final_failed = failed,
                     final_total = Some total_names,
                     transcript = out @ [Summary, SummarySuccessful successful total_names,
                                         SummaryFailed failed total_names]\<rparr>)))"

text \<open>Variant A is \<open>script.py\<close>, variant B the script for winners.\<close>

definition process_names_from_file_A ::
  "env \<Rightarrow> casing \<Rightarrow> world \<Rightarrow> pystr \<Rightarrow> pystr \<Rightarrow> real \<times> real \<Rightarrow> pystr option \<Rightarrow> int
   \<Rightarrow> world \<times> batch_report" where
  "process_names_from_file_A en db w image_path names_file position font_path font_size =
     process_names_from_file
       (\<lambda>w name. add_text_to_image_and_convert_to_pdf en w image_path name position
                    font_path font_size)
       db [] names_file w (read_lines w names_file)"

definition process_names_from_file_B ::
  "env \<Rightarrow> casing \<Rightarrow> world \<Rightarrow> pystr \<Rightarrow> pystr \<Rightarrow> real \<times> real \<Rightarrow> int \<Rightarrow> pystr \<Rightarrow> real \<times> real \<Rightarrow> int
   \<Rightarrow> pystr \<Rightarrow> real \<times> real \<Rightarrow> int \<Rightarrow> world \<times> batch_report" where
  "process_names_from_file_B en db w image_path names_file name_position name_font_size
       event_name event_position event_font_size rank rank_position rank_font_size =
     process_names_from_file
       (\<lambda>w name. add_texts_to_image_and_convert_to_pdf en w image_path name name_position
                    name_font_size event_name event_position event_font_size
                    rank rank_position rank_font_size)
       db [EventAndRank event_name rank] names_file w (read_lines w names_file)"

section \<open>The command line\<close>

text \<open>
  \<open>main\<close> returns normally (\<open>Inr\<close>, with the world and what the run printed apart
  from the renders) or ends in an exception nothing catches (\<open>Inl\<close>), which ends the
  process with a traceback and an error status.
\<close>

definition argv_at :: "pystr list \<Rightarrow> nat \<Rightarrow> py_error + pystr" where
  "argv_at argv i = (if i < length argv then Inr (argv ! i) else Inl IndexError)"

definition py_int :: "env \<Rightarrow> pystr \<Rightarrow> py_error + int" where
  "py_int en s = (case int_of_str en s of None \<Rightarrow> Inl ValueError | Some n \<Rightarrow> Inr n)"

definition and_then :: "py_error + 'a \<Rightarrow> ('a \<Rightarrow> py_error + 'b) \<Rightarrow> py_error + 'b" where
  "and_then m f = (case m of Inl e \<Rightarrow> Inl e | Inr v \<Rightarrow> f v)"

definition int_arg :: "env \<Rightarrow> pystr list \<Rightarrow> nat \<Rightarrow> py_error + int" where
  "int_arg en argv i = and_then (argv_at argv i) (py_int en)"

definition main_A :: "env \<Rightarrow> casing \<Rightarrow> world \<Rightarrow> pystr list \<Rightarrow> py_error + world \<times> message list" where
  "main_A en db w argv =
     (if length argv < 4 then Inr (w, [Usage, UsageExample])
      else
        and_then (argv_at argv 1) (\<lambda>image_path.
        and_then (argv_at argv 2) (\<lambda>names_file.
        and_then (int_arg en argv 3) (\<lambda>x_pos.
        and_then (int_arg en argv 4) (\<lambda>y_pos.
        and_then (if 6 \<le> length argv then map_sum id Some (argv_at argv 5) else Inr None)
          (\<lambda>font_path.
        and_then (if 7 \<le> length argv then int_arg en argv 6 else Inr 30) (\<lambda>font_size.
          (let shown = (if 7 \<le> length argv then [UsingFontSize font_size] else []);
               (w', report) =
                 process_names_from_file_A en db w image_path names_file
                   (of_int x_pos, of_int y_pos) font_path font_size
           in Inr (w', shown @ transcript report)))))))))"

definition main_B :: "env \<Rightarrow> casing \<Rightarrow> world \<Rightarrow> pystr list \<Rightarrow> py_error + world \<times> message list" where
  "main_B en db w argv =
     (if length argv < 11 then Inr (w, [Usage])
      else
        and_then (argv_at argv 1) (\<lambda>image_path.
        and_then (argv_at argv 2) (\<lambda>names_file.
        and_then (int_arg en argv 3) (\<lambda>name_x.
        and_then (int_arg en argv 4) (\<lambda>name_y.
        and_then (int_arg en argv 5) (\<lambda>name_font_size.
        and_then (argv_at argv 6) (\<lambda>event_name.
        and_then (int_arg en argv 7) (\<lambda>event_x.
        and_then (int_arg en argv 8) (\<lambda>event_y.
        and_then (int_arg en argv 9) (\<lambda>event_font_size.
        and_then (argv_at argv 10) (\<lambda>rank.
        and_then (int_arg en argv 11) (\<lambda>rank_x.
        and_then (int_arg en argv 12) (\<lambda>rank_y.
        and_then (int_arg en argv 13) (\<lambda>rank_font_size.
          (let shown = [ShowImage image_path, ShowNamesFile names_file,
                        ShowNameSettings name_x name_y name_font_size,
                        ShowEventSettings event_name event_x event_y event_font_size,
                        ShowRankSettings rank rank_x rank_y rank_font_size];
               (w', report) =
                 process_names_from_file_B en db w image_path names_file
                   (of_int name_x, of_int name_y) name_font_size
                   event_name (of_int event_x, of_int event_y) event_font_size
                   rank (of_int rank_x, of_int rank_y) rank_font_size
           in Inr (w', shown @ transcript report))))))))))))))))"

section \<open>The file name in the words of the specification\<close>

text \<open>
  The text trimmed of leading and trailing whitespace, every whitespace character inside
  it replaced by an underscore, and the extension of the document appended.
\<close>

definition output_name_spec :: "pystr \<Rightarrow> pystr" where
  "output_name_spec text =
     map (\<lambda>c. if py_isspace c then 95 else c) (py_strip text) @ str ''.pdf''"

section \<open>An example environment\<close>

text \<open>
  A Linux machine without the DejaVu font, where only \<open>Title.ttf\<close> exists and loads, an
  image library without \<open>textsize\<close> whose bounding boxes are ten units wide per character
  and twelve high, and a directory that holds a template of 1000 by 600 pixels and a
  names file.
\<close>

definition example_env :: env where
  "example_env =
     \<lparr> platform = str ''linux'',
       path_exists = (\<lambda>p. p = str ''Title.ttf''),
       font_loads = (\<lambda>p sz. p = str ''Title.ttf'' \<and> 0 < sz),
       has_textsize = False,
       textsize = (\<lambda>t f. Inl OSError),
       getbbox = (\<lambda>f t. Inr (0, 3, 10 * real (length t), 15)),
       uuid8 = (\<lambda>n. str ''1a2b3c4d''),
       can_save = (\<lambda>p r. True),
       can_write = (\<lambda>p. 47 \<notin> set p),
       can_remove = (\<lambda>p. True),
       int_of_str = (\<lambda>s. if s = str ''500'' then Some 500
                          else if s = str ''300'' then Some 300 else None) \<rparr>"

definition template :: raster where
  "template = \<lparr> img_size = (1000, 600), picture = 7, drawn = [] \<rparr>"

definition example_world :: world where
  "example_world =
     \<lparr> files = [str ''cert.jpg'' \<mapsto> ImageData template,
                 str ''names.txt'' \<mapsto> TextData [str ''jane doe'', str ''  '', str ''BOB'']],
       objects = [],
       uuid_calls = 0,
       stdout = [] \<rparr>"

text \<open>The same directory after an earlier render for the same name, with one image in memory.\<close>

definition example_world_again :: world where
  "example_world_again =
     example_world\<lparr>files := (files example_world)(str ''Jane_Doe.pdf'' \<mapsto> OtherData),
                    objects := [template]\<rparr>"

text \<open>
  A render to try the driver with: it fails for the name \<open>Bob\<close>, and its world is the
  number of times it was called.
\<close>

definition example_render :: "nat \<Rightarrow> pystr \<Rightarrow> pystr option \<times> nat" where
  "example_render w name =
     (if name = str ''Bob'' then None else Some (output_pdf_name name), Suc w)"


section \<open>Facts about the string operations\<close>

lemma py_split_Nil: "py_split [] = []"
  by (simp add: py_split.simps)

lemma py_split_Cons:
  "py_split (c # cs) =
     (if py_isspace c then py_split cs
      else (c # takeWhile (\<lambda>c. \<not> py_isspace c) cs)
           # py_split (dropWhile (\<lambda>c. \<not> py_isspace c) cs))"
proof (cases "py_isspace c")
  case True
  then show ?thesis
    by (simp add: py_split.simps [of "c # cs"] py_split.simps [of cs])
next
  case False
  then show ?thesis
    by (simp add: py_split.simps [of "c # cs"])
qed

lemma py_split_word:
  "takeWhile (\<lambda>c. \<not> py_isspace c) s \<noteq> [] \<Longrightarrow>
   py_split s = takeWhile (\<lambda>c. \<not> py_isspace c) s
                # py_split (dropWhile (\<lambda>c. \<not> py_isspace c) s)"
  by (cases s) (auto simp: py_split_Cons split: if_splits)

lemma ws_tokens_eq_split_gen:
  "ws_tokens cur s =
     (if cur @ takeWhile (\<lambda>c. \<not> py_isspace c) s = [] then py_split s
      else (cur @ takeWhile (\<lambda>c. \<not> py_isspace c) s)
           # py_split (dropWhile (\<lambda>c. \<not> py_isspace c) s))"
proof (induction s arbitrary: cur)
  case Nil
  then show ?case by (simp add: py_split_Nil)
next
  case (Cons c cs)
  show ?case
  proof (cases "py_isspace c")
    case True
    have "ws_tokens [] cs = py_split cs"
      using Cons.IH [of "[]"] py_split_word [of cs] by (simp split: if_splits)
    with True show ?thesis
      by (simp add: py_split_Cons [of c cs])
  next
    case False
    then show ?thesis
      by (simp add: Cons.IH [of "cur @ [c]"])
  qed
qed

lemma ws_tokens_eq_split: "ws_tokens [] s = py_split s"
  using ws_tokens_eq_split_gen [of "[]" s] py_split_word [of s]
  by (simp split: if_splits)

lemma ws_tokens_trailing_space:
  "py_isspace c \<Longrightarrow> ws_tokens cur (s @ [c]) = ws_tokens cur s"
  by (induction s arbitrary: cur) simp_all

lemma py_split_trailing_space: "py_isspace c \<Longrightarrow> py_split (s @ [c]) = py_split s"
  using ws_tokens_trailing_space [of c "[]" s] by (simp add: ws_tokens_eq_split)

lemma py_split_drop_leading: "py_split (dropWhile py_isspace s) = py_split s"
  by (induction s) (simp_all add: py_split_Cons)

lemma py_split_drop_trailing: "py_split (rev (dropWhile py_isspace (rev s))) = py_split s"
  by (induction s rule: rev_induct) (simp_all add: py_split_trailing_space)

lemma py_split_strip: "py_split (py_strip s) = py_split s"
  by (simp add: py_strip_def py_split_drop_trailing py_split_drop_leading)

lemma py_split_trim_spec: "py_split (trim_spec s) = py_split s"
  by (simp add: trim_spec_def py_split_drop_trailing py_split_drop_leading)

lemma py_split_all_space: "\<forall>c\<in>set s. py_isspace c \<Longrightarrow> py_split s = []"
  by (induction s) (simp_all add: py_split_Nil py_split_Cons)

lemma join_single_spaces_eq: "join_single_spaces ts = py_join [32] ts"
  by (induction "[32::nat]" ts rule: py_join.induct) (simp_all add: join_single_spaces_def)

lemma title_case_name_tokens:
  "title_case_name db s = py_join [32] (map (capitalize db) (py_split s))"
  by (simp add: title_case_name_def py_split_strip)

text \<open>Every word that \<open>split\<close> returns is non-empty, free of whitespace and part of the input.\<close>

lemma py_split_words:
  "t \<in> set (py_split s) \<Longrightarrow> t \<noteq> [] \<and> (\<forall>c\<in>set t. \<not> py_isspace c) \<and> set t \<subseteq> set s"
proof (induction s arbitrary: t rule: py_split.induct)
  case (1 s)
  define rest where "rest = dropWhile py_isspace s"
  show ?case
  proof (cases "rest = []")
    case True
    with "1.prems" show ?thesis
      by (simp add: py_split.simps [of s] rest_def)
  next
    case False
    from False have hd: "\<not> py_isspace (hd rest)"
      unfolding rest_def using hd_dropWhile by metis
    have sub: "set rest \<subseteq> set s"
      unfolding rest_def by (rule set_dropWhileD [THEN subsetI])
    have "py_split s = takeWhile (\<lambda>c. \<not> py_isspace c) rest
                       # py_split (dropWhile (\<lambda>c. \<not> py_isspace c) rest)"
      using False unfolding rest_def by (subst py_split.simps) (simp add: Let_def)
    with "1.prems"
    consider "t = takeWhile (\<lambda>c. \<not> py_isspace c) rest"
      | "t \<in> set (py_split (dropWhile (\<lambda>c. \<not> py_isspace c) rest))"
      by auto
    then show ?thesis
    proof cases
      case 1
      have "t \<noteq> []"
        using False hd 1 by (cases rest) simp_all
      moreover have "\<forall>c\<in>set t. \<not> py_isspace c"
        using 1 by (auto dest: set_takeWhileD)
      moreover have "set t \<subseteq> set s"
        using 1 sub by (auto dest: set_takeWhileD)
      ultimately show ?thesis by blast
    next
      case 2
      from "1.IH" [OF rest_def False 2]
      have "t \<noteq> [] \<and> (\<forall>c\<in>set t. \<not> py_isspace c)
            \<and> set t \<subseteq> set (dropWhile (\<lambda>c. \<not> py_isspace c) rest)" .
      moreover have "set (dropWhile (\<lambda>c. \<not> py_isspace c) rest) \<subseteq> set s"
        using sub by (auto dest: set_dropWhileD)
      ultimately show ?thesis by blast
    qed
  qed
qed

lemma py_split_single_word:
  "t \<noteq> [] \<Longrightarrow> \<forall>c\<in>set t. \<not> py_isspace c \<Longrightarrow> py_split t = [t]"
proof -
  assume ne: "t \<noteq> []" and ns: "\<forall>c\<in>set t. \<not> py_isspace c"
  from ns have tw: "takeWhile (\<lambda>c. \<not> py_isspace c) t = t"
    by (simp add: takeWhile_eq_all_conv)
  from ns have dw: "dropWhile (\<lambda>c. \<not> py_isspace c) t = []"
    by simp
  from py_split_word [of t] ne show "py_split t = [t]"
    by (simp add: tw dw py_split_Nil)
qed

lemma py_split_word_space:
  assumes "t \<noteq> []" and "\<forall>c\<in>set t. \<not> py_isspace c"
  shows "py_split (t @ 32 # r) = t # py_split r"
proof -
  have sp: "py_isspace 32" by (simp add: py_isspace_def)
  have tw: "takeWhile (\<lambda>c. \<not> py_isspace c) (t @ 32 # r) = t"
    using assms(2) sp by simp
  have dw: "dropWhile (\<lambda>c. \<not> py_isspace c) (t @ 32 # r) = 32 # r"
    using assms(2) sp by (simp add: dropWhile_append2)
  from tw assms(1) have "py_split (t @ 32 # r) = t # py_split (32 # r)"
    using py_split_word [of "t @ 32 # r"] dw by simp
  with sp show ?thesis by (simp add: py_split_Cons)
qed

lemma py_split_join:
  "\<forall>t\<in>set ts. t \<noteq> [] \<and> (\<forall>c\<in>set t. \<not> py_isspace c) \<Longrightarrow> py_split (py_join [32] ts) = ts"
proof (induction "[32::nat]" ts rule: py_join.induct)
  case 1
  then show ?case by (simp add: py_split_Nil)
next
  case (2 x)
  then show ?case by (simp add: py_split_single_word)
next
  case (3 x y ys)
  then show ?case by (simp add: py_split_word_space)
qed

subsection \<open>Capitalizing ASCII words\<close>

lemma ascii_upper_twice: "ascii_upper (ascii_upper c) = ascii_upper c"
  unfolding ascii_upper_def by auto

lemma ascii_lower_twice: "ascii_lower (ascii_lower c) = ascii_lower c"
  unfolding ascii_lower_def by auto

lemma ascii_upper_space: "py_isspace (ascii_upper c) = py_isspace c"
  by (auto simp: ascii_upper_def py_isspace_def)

lemma ascii_lower_space: "py_isspace (ascii_lower c) = py_isspace c"
  by (auto simp: ascii_lower_def py_isspace_def)

lemma ascii_upper_less: "c < 128 \<Longrightarrow> ascii_upper c < 128"
  unfolding ascii_upper_def by auto

lemma ascii_lower_less: "c < 128 \<Longrightarrow> ascii_lower c < 128"
  unfolding ascii_lower_def by auto

lemma lower_tail_ascii:
  assumes "ascii_casing db" and "\<forall>c\<in>set w. c < 128"
  shows "concat (map (lower_at db w) [1..<length w]) = map ascii_lower (tl w)"
proof -
  have each: "map (lower_at db w) [1..<length w]
              = map (\<lambda>i. [ascii_lower (w ! i)]) [1..<length w]"
    using assms by (simp add: ascii_casing_def)
  have "concat (map (lower_at db w) [1..<length w])
        = concat (map (\<lambda>i. [ascii_lower (w ! i)]) [1..<length w])"
    by (simp only: each)
  also have "\<dots> = map (\<lambda>i. ascii_lower (w ! i)) [1..<length w]"
    by (rule concat_map_singleton)
  also have "\<dots> = map ascii_lower (map ((!) w) [1..<length w])"
    by simp
  also have "map ((!) w) [1..<length w] = tl w"
  proof (cases w)
    case Nil
    then show ?thesis by simp
  next
    case (Cons c cs)
    have "map ((!) (c # cs)) (map Suc [0..<length cs]) = map ((!) cs) [0..<length cs]"
      by simp
    then show ?thesis
      using Cons by (simp add: map_Suc_upt map_nth del: upt_Suc)
  qed
  finally show ?thesis .
qed

lemma capitalize_ascii:
  assumes "ascii_casing db" and "\<forall>c\<in>set (c # cs). c < 128"
  shows "capitalize db (c # cs) = ascii_upper c # map ascii_lower cs"
  using lower_tail_ascii [OF assms] assms by (simp add: capitalize_def ascii_casing_def)

lemma capitalize_ascii_stable:
  assumes db: "ascii_casing db" and asc: "\<forall>c\<in>set t. c < 128"
    and ne: "t \<noteq> []" and ns: "\<forall>c\<in>set t. \<not> py_isspace c"
  shows "capitalize db t \<noteq> [] \<and> (\<forall>c\<in>set (capitalize db t). \<not> py_isspace c)
         \<and> capitalize db (capitalize db t) = capitalize db t"
proof -
  from ne obtain c cs where t: "t = c # cs" by (cases t) auto
  have cap: "capitalize db t = ascii_upper c # map ascii_lower cs"
    using capitalize_ascii [OF db] asc t by simp
  have asc': "\<forall>d\<in>set (ascii_upper c # map ascii_lower cs). d < 128"
    using asc t by (auto simp: ascii_upper_less ascii_lower_less)
  have "capitalize db (ascii_upper c # map ascii_lower cs)
        = ascii_upper (ascii_upper c) # map ascii_lower (map ascii_lower cs)"
    by (rule capitalize_ascii [OF db asc'])
  then have "capitalize db (capitalize db t) = capitalize db t"
    by (simp add: cap ascii_upper_twice ascii_lower_twice)
  moreover have "\<forall>d\<in>set (ascii_upper c # map ascii_lower cs). \<not> py_isspace d"
    using ns t by (auto simp: ascii_upper_space ascii_lower_space)
  ultimately show ?thesis by (simp add: cap)
qed

lemma ascii_casing_fragment: "ascii_casing ucd_fragment"
  by (simp add: ascii_casing_def ucd_fragment_def)

section \<open>Facts about images and fonts\<close>

lemma image_open_ok:
  "read_image w path = Inr r \<Longrightarrow>
   image_open w path = (Inr (length (objects w)), w\<lparr>objects := objects w @ [r]\<rparr>)"
  by (simp add: image_open_def)

lemma image_open_err: "read_image w path = Inl e \<Longrightarrow> image_open w path = (Inl e, w)"
  by (simp add: image_open_def)

lemma read_image_print [simp]: "read_image (print_all ms w) path = read_image w path"
  by (simp add: read_image_def print_all_def)

lemma draw_centered_ok:
  "measure_text en text fnt = Inr (tw, th) \<Longrightarrow>
   draw_centered en w img text (x, y) fnt
   = (Inr (), draw_text w img (x - tw / 2, y) text (str ''black'') fnt)"
  by (simp add: draw_centered_def)

lemma draw_centered_err:
  "measure_text en text fnt = Inl e \<Longrightarrow> draw_centered en w img text position fnt = (Inl e, w)"
  by (simp add: draw_centered_def)

lemma files_draw_text [simp]: "files (draw_text w img pos text fill fnt) = files w"
  by (simp add: draw_text_def)

lemma files_print_all [simp]: "files (print_all ms w) = files w"
  by (simp add: print_all_def)

lemma objects_print_all [simp]: "objects (print_all ms w) = objects w"
  by (simp add: print_all_def)

lemma length_objects_draw_text [simp]:
  "length (objects (draw_text w img pos text fill fnt)) = length (objects w)"
  by (simp add: draw_text_def)


lemma objects_draw_text_other:
  "j \<noteq> img \<Longrightarrow> objects (draw_text w img pos text fill fnt) ! j = objects w ! j"
  by (simp add: draw_text_def)

text \<open>What \<open>add_centered_text\<close> does, by the outcome of the measurement.\<close>

lemma add_centered_text_ok:
  assumes "measure_text en text (fst (load_system_font en font_size)) = Inr (tw, th)"
  shows "add_centered_text en w img text (x, y) font_size
         = (Inr (), draw_text (print_all (snd (load_system_font en font_size)) w) img
                      (x - tw / 2, y) text (str ''black'') (fst (load_system_font en font_size)))"
  using assms by (simp add: add_centered_text_def draw_centered_ok split_beta)

lemma add_centered_text_err:
  assumes "measure_text en text (fst (load_system_font en font_size)) = Inl e"
  shows "add_centered_text en w img text position font_size
         = (Inl e, print_all (snd (load_system_font en font_size)) w)"
  using assms by (simp add: add_centered_text_def draw_centered_err split_beta)

text \<open>It touches no file and no image object but the one it draws on.\<close>

lemma add_centered_text_frame:
  assumes "add_centered_text en w img text position font_size = (res, w')"
  shows "files w' = files w \<and> length (objects w') = length (objects w)
         \<and> (\<forall>j. j \<noteq> img \<longrightarrow> objects w' ! j = objects w ! j)"
proof (cases "measure_text en text (fst (load_system_font en font_size))")
  case (Inl e)
  have "add_centered_text en w img text position font_size
        = (Inl e, print_all (snd (load_system_font en font_size)) w)"
    by (rule add_centered_text_err [OF Inl])
  with assms have "w' = print_all (snd (load_system_font en font_size)) w"
    by simp
  then show ?thesis by simp
next
  case (Inr m)
  obtain tw th where m: "m = (tw, th)" by (cases m)
  obtain x y where p: "position = (x, y)" by (cases position)
  have "add_centered_text en w img text (x, y) font_size
        = (Inr (), draw_text (print_all (snd (load_system_font en font_size)) w) img
                     (x - tw / 2, y) text (str ''black'') (fst (load_system_font en font_size)))"
    using Inr m by (intro add_centered_text_ok) simp
  with assms p
  have "w' = draw_text (print_all (snd (load_system_font en font_size)) w) img
               (x - tw / 2, y) text (str ''black'') (fst (load_system_font en font_size))"
    by simp
  then show ?thesis by (simp add: objects_draw_text_other)
qed

text \<open>The first script's compositing, by the outcome of opening and measuring.\<close>

lemma composite_open_err:
  "read_image w image_path = Inl e \<Longrightarrow>
   composite en w image_path text position font_path font_size = (Inl e, w)"
  by (simp add: composite_def image_open_err)

lemma composite_measure_err:
  assumes "read_image w image_path = Inr r0"
    and "measure_text en text (fst (resolve_font en font_path font_size)) = Inl e"
  shows "composite en w image_path text position font_path font_size
         = (Inl e, print_all (snd (resolve_font en font_path font_size))
                     (w\<lparr>objects := objects w @ [r0, r0]\<rparr>))"
  using assms
  by (simp add: composite_def image_open_ok image_copy_def draw_centered_err nth_append
      split_beta)

lemma composite_ok:
  assumes "read_image w image_path = Inr r0"
    and "measure_text en text (fst (resolve_font en font_path font_size)) = Inr (tw, th)"
  shows "composite en w image_path text (x, y) font_path font_size
         = (Inr (Suc (length (objects w))),
            draw_text (print_all (snd (resolve_font en font_path font_size))
                         (w\<lparr>objects := objects w @ [r0, r0]\<rparr>))
              (Suc (length (objects w))) (x - tw / 2, y) text (str ''black'')
              (fst (resolve_font en font_path font_size)))"
  using assms
  by (simp add: composite_def image_open_ok image_copy_def draw_centered_ok nth_append
      split_beta)

text \<open>Compositing leaves the files and the image objects that were there as they are.\<close>

lemma same_but_one:
  assumes "length ys = length xs" and "\<forall>j. j \<noteq> Suc n \<longrightarrow> ys ! j = xs ! j"
  shows "take n ys = take n xs \<and> ys ! n = xs ! n"
proof -
  have "take n ys = take n xs"
  proof (cases "n \<le> length xs")
    case True
    with assms show ?thesis
      by (intro nth_take_lemma) auto
  next
    case False
    with assms have "ys = xs"
      by (intro nth_equalityI) auto
    then show ?thesis by simp
  qed
  with assms(2) show ?thesis by simp
qed

lemma composite_frame:
  "files (snd (composite en w image_path text position font_path font_size)) = files w
   \<and> take (length (objects w))
        (objects (snd (composite en w image_path text position font_path font_size)))
     = objects w
   \<and> (read_image w image_path = Inr r0 \<longrightarrow>
        objects (snd (composite en w image_path text position font_path font_size))
          ! length (objects w) = r0)
   \<and> (fst (composite en w image_path text position font_path font_size) = Inr cid \<longrightarrow>
        cid = Suc (length (objects w)))"
proof (cases "read_image w image_path")
  case (Inl e)
  then show ?thesis by (simp add: composite_open_err)
next
  case (Inr r)
  obtain x y where p: "position = (x, y)" by (cases position)
  show ?thesis
  proof (cases "measure_text en text (fst (resolve_font en font_path font_size))")
    case (Inl e)
    from composite_measure_err [OF Inr Inl] Inr show ?thesis
      by (simp add: nth_append)
  next
    case m: (Inr m)
    obtain tw th where "m = (tw, th)" by (cases m)
    with m have "measure_text en text (fst (resolve_font en font_path font_size)) = Inr (tw, th)"
      by simp
    from composite_ok [OF Inr this] Inr p show ?thesis
      by (simp add: draw_text_def nth_append)
  qed
qed

lemma composite_texts_frame:
  "files (snd (composite_texts en w image_path name np ns ev ep es rk rp rs)) = files w
   \<and> take (length (objects w))
        (objects (snd (composite_texts en w image_path name np ns ev ep es rk rp rs)))
     = objects w
   \<and> (read_image w image_path = Inr r0 \<longrightarrow>
        objects (snd (composite_texts en w image_path name np ns ev ep es rk rp rs))
          ! length (objects w) = r0)
   \<and> (fst (composite_texts en w image_path name np ns ev ep es rk rp rs) = Inr cid \<longrightarrow>
        cid = Suc (length (objects w)))"
proof (cases "read_image w image_path")
  case (Inl e)
  then show ?thesis by (simp add: composite_texts_def image_open_err)
next
  case (Inr r)
  let ?n = "length (objects w)"
  let ?w2 = "w\<lparr>objects := objects w @ [r, r]\<rparr>"
  obtain a1 w3 where s1: "add_centered_text en ?w2 (Suc ?n) name np ns = (a1, w3)"
    by (cases "add_centered_text en ?w2 (Suc ?n) name np ns")
  obtain a2 w4 where s2: "add_centered_text en w3 (Suc ?n) ev ep es = (a2, w4)"
    by (cases "add_centered_text en w3 (Suc ?n) ev ep es")
  obtain a3 w5 where s3: "add_centered_text en w4 (Suc ?n) rk rp rs = (a3, w5)"
    by (cases "add_centered_text en w4 (Suc ?n) rk rp rs")
  note f1 = add_centered_text_frame [OF s1]
  note f2 = add_centered_text_frame [OF s2]
  note f3 = add_centered_text_frame [OF s3]
  have k2: "files ?w2 = files w \<and> take ?n (objects ?w2) = objects w \<and> objects ?w2 ! ?n = r"
    by (simp add: nth_append)
  have k3: "files w3 = files w \<and> take ?n (objects w3) = objects w \<and> objects w3 ! ?n = r"
    using f1 k2 same_but_one [of "objects w3" "objects ?w2" ?n] by simp
  have k4: "files w4 = files w \<and> take ?n (objects w4) = objects w \<and> objects w4 ! ?n = r"
    using f2 k3 same_but_one [of "objects w4" "objects w3" ?n] by simp
  have k5: "files w5 = files w \<and> take ?n (objects w5) = objects w \<and> objects w5 ! ?n = r"
    using f3 k4 same_but_one [of "objects w5" "objects w4" ?n] by simp
  have "composite_texts en w image_path name np ns ev ep es rk rp rs
        = (case a1 of
             Inl e \<Rightarrow> (Inl e, w3)
           | Inr u \<Rightarrow>
              (case a2 of
                 Inl e \<Rightarrow> (Inl e, w4)
               | Inr u \<Rightarrow> (case a3 of Inl e \<Rightarrow> (Inl e, w5) | Inr u \<Rightarrow> (Inr (Suc ?n), w5))))"
    by (simp add: composite_texts_def image_open_ok [OF Inr] image_copy_def nth_append s1 s2 s3
        split: sum.splits)
  with k3 k4 k5 Inr show ?thesis
    by (simp split: sum.splits)
qed



section \<open>Claims about the name normalizer\<close>

lemma capitalize_ascii_words:
  assumes db: "ascii_casing db" and asc: "\<forall>c\<in>set s. c < 128"
  shows "map (capitalize db) (py_split s) = map ascii_capitalize (py_split s)"
proof (rule map_cong [OF refl])
  fix t
  assume "t \<in> set (py_split s)"
  from py_split_words [OF this] asc
  obtain c cs where t: "t = c # cs" and "\<forall>c\<in>set t. c < 128"
    by (cases t) auto
  with capitalize_ascii [OF db, of c cs] show "capitalize db t = ascii_capitalize t"
    by (simp add: ascii_capitalize_def)
qed

text \<open>
  Claim C1. For every input string, \<open>title_case_name\<close> returns what the specification
  describes: the string is trimmed of leading and trailing whitespace, split on runs of
  whitespace, every token is capitalized (first character by the title-case mapping, the
  others by the lower-case mapping), and the tokens are rejoined with single spaces. An
  input that is empty or made of whitespace only gives the empty string. This holds for
  every case mapping table. On ASCII strings capitalizing a token is making its first
  character upper case and the others lower case.
\<close>

theorem title_case_name_meets_spec:
  "title_case_name db s = title_case_spec db s
   \<and> ((\<forall>c\<in>set s. py_isspace c) \<longrightarrow> title_case_name db s = [])
   \<and> (ascii_casing db \<and> (\<forall>c\<in>set s. c < 128) \<longrightarrow>
        title_case_name db s
        = join_single_spaces (map ascii_capitalize (ws_tokens [] (trim_spec s))))"
proof -
  have "title_case_name db s
        = join_single_spaces (map ascii_capitalize (ws_tokens [] (trim_spec s)))"
    if "ascii_casing db" and "\<forall>c\<in>set s. c < 128"
    using capitalize_ascii_words [OF that]
    by (simp only: title_case_name_tokens ws_tokens_eq_split py_split_trim_spec
        join_single_spaces_eq)
  then show ?thesis
    by (simp add: title_case_name_def title_case_spec_def ws_tokens_eq_split py_split_strip
        py_split_trim_spec join_single_spaces_eq py_split_all_space)
qed

theorem title_case_name_meets_spec_witness:
  "title_case_name ucd_fragment (str ''  '') = [] \<and>
   title_case_spec ucd_fragment (str '' jANE   doe '') = str ''Jane Doe'' \<and>
   join_single_spaces (map ascii_capitalize (ws_tokens [] (trim_spec (str '' jANE   doe ''))))
     = str ''Jane Doe''"
proof -
  have asc: "\<forall>c\<in>set (str '' jANE   doe ''). c < 128"
    by (simp add: str_def)
  have sp: "\<forall>c\<in>set (str ''  ''). py_isspace c"
    by (simp add: str_def py_isspace_def)
  have run: "title_case_name ucd_fragment (str '' jANE   doe '') = str ''Jane Doe''"
    by (simp add: title_case_name_def py_strip_def str_def py_isspace_def py_split_Cons
        py_split_Nil capitalize_def ucd_fragment_def ascii_upper_def ascii_lower_def
        upt_conv_Cons)
  from sp have "title_case_name ucd_fragment (str ''  '') = []"
    using title_case_name_meets_spec [of ucd_fragment "str ''  ''"] by blast
  moreover from run have "title_case_spec ucd_fragment (str '' jANE   doe '') = str ''Jane Doe''"
    using title_case_name_meets_spec [of ucd_fragment "str '' jANE   doe ''"] by metis
  moreover from run asc ascii_casing_fragment
  have "join_single_spaces (map ascii_capitalize
          (ws_tokens [] (trim_spec (str '' jANE   doe '')))) = str ''Jane Doe''"
    using title_case_name_meets_spec [of ucd_fragment "str '' jANE   doe ''"] by metis
  ultimately show ?thesis
    by blast
qed

text \<open>
  Claim C10, as stated: normalizing is idempotent on every input string. It is not.
  The title case of U+0149 is the two characters U+02BC U+004E, an apostrophe-like
  letter followed by a capital N; normalizing that result again lowers the N, which is
  no longer the first character: the normalizer maps the string U+0149 to
  U+02BC U+004E, and that string to U+02BC U+006E.
\<close>

theorem title_case_name_not_idempotent:
  "title_case_name ucd_fragment (title_case_name ucd_fragment [329])
   \<noteq> title_case_name ucd_fragment [329]"
  by (simp add: title_case_name_tokens py_split_Cons py_split_Nil py_isspace_def
      capitalize_def ucd_fragment_def ascii_upper_def ascii_lower_def upt_conv_Cons)

text \<open>
  Claim C10, amended: normalizing is idempotent on every string of ASCII characters,
  whatever its number of words and its whitespace, for every case mapping table that maps
  the ASCII range as Unicode fixes it.
\<close>

theorem title_case_name_idempotent_ascii:
  assumes db: "ascii_casing db" and asc: "\<forall>c\<in>set s. c < 128"
  shows "title_case_name db (title_case_name db s) = title_case_name db s"
proof -
  let ?ts = "map (capitalize db) (py_split s)"
  have stable: "capitalize db t \<noteq> [] \<and> (\<forall>c\<in>set (capitalize db t). \<not> py_isspace c)
                \<and> capitalize db (capitalize db t) = capitalize db t"
    if "t \<in> set (py_split s)" for t
  proof -
    from py_split_words [OF that] asc
    have "t \<noteq> []" and "\<forall>c\<in>set t. \<not> py_isspace c" and "\<forall>c\<in>set t. c < 128"
      by auto
    then show ?thesis
      using capitalize_ascii_stable [OF db] by blast
  qed
  then have again: "py_split (py_join [32] ?ts) = ?ts"
    by (intro py_split_join) auto
  have same: "map (capitalize db) ?ts = ?ts"
    using stable by simp
  show ?thesis
    by (simp only: title_case_name_tokens again same)
qed

theorem title_case_name_idempotent_ascii_witness:
  "title_case_name ucd_fragment (str ''mARY  ann'') = str ''Mary Ann'' \<and>
   title_case_name ucd_fragment (str ''Mary Ann'') = str ''Mary Ann''"
proof -
  have asc: "\<forall>c\<in>set (str ''mARY  ann''). c < 128"
    by (simp add: str_def)
  have run: "title_case_name ucd_fragment (str ''mARY  ann'') = str ''Mary Ann''"
    by (simp add: title_case_name_tokens str_def py_isspace_def py_split_Cons
        py_split_Nil capitalize_def ucd_fragment_def ascii_upper_def ascii_lower_def
        upt_conv_Cons)
  from title_case_name_idempotent_ascii [OF ascii_casing_fragment asc]
  have "title_case_name ucd_fragment (str ''Mary Ann'') = str ''Mary Ann''"
    unfolding run .
  with run show ?thesis by blast
qed

section \<open>Claims about the compositor\<close>

lemma example_read_template: "read_image example_world (str ''cert.jpg'') = Inr template"
  by (simp add: read_image_def example_world_def str_def)

lemma example_measure: "measure_text example_env t f = Inr (10 * real (length t), 12)"
  by (simp add: measure_text_def example_env_def)



text \<open>
  Claim C9. Every render draws on a fresh copy of the template image. Compositing
  changes no file, so not the template file; it changes none of the image objects that
  existed before; the object made by opening the template still holds the template as it
  was read; and the object drawn on, the one compositing returns, is another one. This
  holds for both scripts, whether compositing succeeds or fails. Saving the copy under
  the temporary name and exporting the page come after compositing.
\<close>

theorem template_never_mutated:
  "files (snd (composite en w image_path text position font_path font_size)) = files w
   \<and> take (length (objects w))
        (objects (snd (composite en w image_path text position font_path font_size)))
     = objects w
   \<and> (read_image w image_path = Inr r0 \<longrightarrow>
        objects (snd (composite en w image_path text position font_path font_size))
          ! length (objects w) = r0)
   \<and> (fst (composite en w image_path text position font_path font_size) = Inr cid \<longrightarrow>
        cid = Suc (length (objects w)))
   \<and> files (snd (composite_texts en w image_path name np ns ev ep es rk rp rs)) = files w
   \<and> take (length (objects w))
        (objects (snd (composite_texts en w image_path name np ns ev ep es rk rp rs)))
     = objects w
   \<and> (read_image w image_path = Inr r0 \<longrightarrow>
        objects (snd (composite_texts en w image_path name np ns ev ep es rk rp rs))
          ! length (objects w) = r0)
   \<and> (fst (composite_texts en w image_path name np ns ev ep es rk rp rs) = Inr cid' \<longrightarrow>
        cid' = Suc (length (objects w)))"
  using composite_frame [of en w image_path "text" position font_path font_size r0 cid]
    composite_texts_frame [of en w image_path name np ns ev ep es rk rp rs r0 cid']
  by simp

theorem template_never_mutated_witness:
  "files (snd (composite example_env example_world (str ''cert.jpg'') (str ''Jane Doe'')
                 (500, 300) None 36)) (str ''cert.jpg'') = Some (ImageData template)
   \<and> objects (snd (composite example_env example_world (str ''cert.jpg'') (str ''Jane Doe'')
                     (500, 300) None 36)) ! 0 = template
   \<and> fst (composite example_env example_world (str ''cert.jpg'') (str ''Jane Doe'')
            (500, 300) None 36) = Inr 1
   \<and> objects (snd (composite_texts example_env example_world (str ''cert.jpg'')
                     (str ''Jane Doe'') (500, 300) 36 (str ''Expo'') (500, 200) 24
                     (str ''II'') (500, 400) 20)) ! 0 = template
   \<and> fst (composite_texts example_env example_world (str ''cert.jpg'')
            (str ''Jane Doe'') (500, 300) 36 (str ''Expo'') (500, 200) 24
            (str ''II'') (500, 400) 20) = Inr 1"
proof -
  have n: "objects example_world = []"
    by (simp add: example_world_def)
  have okA: "fst (composite example_env example_world (str ''cert.jpg'') (str ''Jane Doe'')
                    (500, 300) None 36) = Inr 1"
    by (simp add: composite_def image_open_ok [OF example_read_template] image_copy_def
        draw_centered_ok [OF example_measure] split_beta n)
  have okB: "fst (composite_texts example_env example_world (str ''cert.jpg'')
                    (str ''Jane Doe'') (500, 300) 36 (str ''Expo'') (500, 200) 24
                    (str ''II'') (500, 400) 20) = Inr 1"
    by (simp add: composite_texts_def image_open_ok [OF example_read_template] image_copy_def
        add_centered_text_ok [OF example_measure] n)
  have fl: "files example_world (str ''cert.jpg'') = Some (ImageData template)"
    by (simp add: example_world_def str_def)
  from template_never_mutated [of example_env example_world "str ''cert.jpg''"
      "str ''Jane Doe''" "(500, 300)" None 36 template 1
      "str ''Jane Doe''" "(500, 300)" 36 "str ''Expo''" "(500, 200)" 24
      "str ''II''" "(500, 400)" 20 1]
  show ?thesis
    using okA okB fl example_read_template by (simp add: n)
qed



section \<open>Claims about the page exporter\<close>

lemma landscape_letter: "landscape letter = (792, 612)"
  by (simp add: landscape_def letter_def)


lemma export_pdf_ok:
  assumes "read_image w temp_image_path = Inr r"
    and "place_image (landscape letter) (img_size r) = Inr pl"
    and "can_write en output_pdf"
  shows "export_pdf en w temp_image_path output_pdf
         = (Inr (), w\<lparr>objects := objects w @ [r],
                       files := (files w)(output_pdf \<mapsto>
                          PdfData \<lparr>pagesize = landscape letter, page_image = r,
                                   page_place = pl\<rparr>)\<rparr>)"
proof -
  have "read_image (w\<lparr>objects := objects w @ [r]\<rparr>) temp_image_path = Inr r"
    using assms(1) by (simp add: read_image_def)
  with assms show ?thesis
    by (simp add: export_pdf_def image_open_ok)
qed



lemma temp_name_not_output: "temp_name unique_id \<noteq> output_pdf_name text"
proof
  assume "temp_name unique_id = output_pdf_name text"
  then have "last (temp_name unique_id) = last (output_pdf_name text)"
    by simp
  then show False
    by (simp add: temp_name_def output_pdf_name_def str_def)
qed

lemma export_pdf_inr:
  assumes "export_pdf en w temp_image_path output_pdf = (Inr u, w')"
  shows "\<exists>r pl. read_image w temp_image_path = Inr r
           \<and> place_image (landscape letter) (img_size r) = Inr pl
           \<and> files w' = (files w)(output_pdf \<mapsto>
                PdfData \<lparr>pagesize = landscape letter, page_image = r, page_place = pl\<rparr>)"
proof (cases "read_image w temp_image_path")
  case (Inl e)
  with assms show ?thesis
    by (simp add: export_pdf_def image_open_err)
next
  case (Inr r)
  then have again: "read_image (w\<lparr>objects := objects w @ [r]\<rparr>) temp_image_path = Inr r"
    by (simp add: read_image_def)
  show ?thesis
  proof (cases "place_image (landscape letter) (img_size r)")
    case (Inl e)
    with assms Inr show ?thesis
      by (simp add: export_pdf_def image_open_ok)
  next
    case pl: (Inr pl)
    show ?thesis
    proof (cases "can_write en output_pdf")
      case True
      from export_pdf_ok [OF Inr pl True] assms Inr pl show ?thesis
        by auto
    next
      case False
      with assms Inr pl again show ?thesis
        by (simp add: export_pdf_def image_open_ok)
    qed
  qed
qed

lemma save_and_export_some:
  assumes "save_and_export en w img (temp_name unique_id) text = (Some out, w')"
  shows "out = output_pdf_name text
         \<and> (\<exists>pl. files w' out
                  = Some (PdfData \<lparr>pagesize = landscape letter, page_image = objects w ! img,
                                    page_place = pl\<rparr>))"
proof (cases "can_save en (temp_name unique_id) (objects w ! img)")
  case False
  with assms show ?thesis
    by (simp add: save_and_export_def save_image_def render_failed_def)
next
  case True
  let ?tmp = "temp_name unique_id"
  let ?w1 = "w\<lparr>files := (files w)(?tmp \<mapsto> ImageData (objects w ! img))\<rparr>"
  have saved: "save_image en w img ?tmp = (Inr (), ?w1)"
    using True by (simp add: save_image_def)
  have rd: "read_image ?w1 ?tmp = Inr (objects w ! img)"
    by (simp add: read_image_def)
  obtain res w2 where ex: "export_pdf en ?w1 ?tmp (output_pdf_name text) = (res, w2)"
    by (cases "export_pdf en ?w1 ?tmp (output_pdf_name text)")
  show ?thesis
  proof (cases res)
    case (Inl e)
    with assms saved ex show ?thesis
      by (simp add: save_and_export_def render_failed_def)
  next
    case (Inr u)
    with assms saved ex
    have out: "out = output_pdf_name text" and w': "w' = remove_temp en w2 ?tmp"
      by (simp_all add: save_and_export_def)
    from export_pdf_inr [OF ex [unfolded Inr]] rd
    obtain pl where "files w2 = (files ?w1)(output_pdf_name text \<mapsto>
        PdfData \<lparr>pagesize = landscape letter, page_image = objects w ! img, page_place = pl\<rparr>)"
      by auto
    then have "files w' out
        = Some (PdfData \<lparr>pagesize = landscape letter, page_image = objects w ! img,
                          page_place = pl\<rparr>)"
      using temp_name_not_output [of unique_id "text"]
      by (auto simp: w' out remove_temp_def)
    with out show ?thesis by blast
  qed
qed

text \<open>
  Claim C6, as stated: every whitespace character inside the trimmed text becomes an
  underscore. The code replaces the space character only: a tab inside the text stays in
  the file name.
\<close>

theorem output_name_keeps_tab:
  "output_pdf_name (str ''A'' @ [9] @ str ''B'') \<noteq> output_name_spec (str ''A'' @ [9] @ str ''B'')"
  by (simp add: output_pdf_name_def output_name_spec_def py_replace_char_def py_strip_def
      py_isspace_def str_def)

text \<open>
  Claim C6, amended: the name of the output document is the text trimmed of leading and
  trailing whitespace, with every space character (U+0020) inside it replaced by an
  underscore, and \<open>.pdf\<close> appended. A render that succeeds leaves under that name the
  page it made, whatever was there before: of two items with the same name the output of
  the later one remains.
\<close>

theorem output_name_and_overwrite:
  "output_pdf_name text = map (\<lambda>c. if c = 32 then 95 else c) (py_strip text) @ str ''.pdf''
   \<and> (save_and_export en w img (temp_name unique_id) text = (Some out, w') \<longrightarrow>
        out = output_pdf_name text
        \<and> (\<exists>pl. files w' out
                 = Some (PdfData \<lparr>pagesize = (792, 612), page_image = objects w ! img,
                                   page_place = pl\<rparr>)))"
  using save_and_export_some [of en w img unique_id "text" out w']
  by (simp add: output_pdf_name_def py_replace_char_def landscape_letter)

theorem output_name_and_overwrite_witness:
  "files example_world_again (str ''Jane_Doe.pdf'') = Some OtherData
   \<and> fst (save_and_export example_env example_world_again 0 (temp_name (str ''1a2b3c4d''))
            (str '' Jane Doe '')) = Some (str ''Jane_Doe.pdf'')
   \<and> (\<exists>pl. files (snd (save_and_export example_env example_world_again 0
                          (temp_name (str ''1a2b3c4d'')) (str '' Jane Doe '')))
              (str ''Jane_Doe.pdf'')
            = Some (PdfData \<lparr>pagesize = (792, 612), page_image = template, page_place = pl\<rparr>))"
proof -
  let ?run = "save_and_export example_env example_world_again 0 (temp_name (str ''1a2b3c4d''))
                (str '' Jane Doe '')"
  have name: "output_pdf_name (str '' Jane Doe '') = str ''Jane_Doe.pdf''"
    by (simp add: output_pdf_name_def py_replace_char_def py_strip_def py_isspace_def str_def)
  have old: "files example_world_again (str ''Jane_Doe.pdf'') = Some OtherData"
    by (simp add: example_world_again_def)
  have obj: "objects example_world_again ! 0 = template"
    by (simp add: example_world_again_def)
  have sv: "save_image example_env example_world_again 0 (temp_name (str ''1a2b3c4d''))
            = (Inr (), example_world_again\<lparr>files := (files example_world_again)
                 (temp_name (str ''1a2b3c4d'') \<mapsto> ImageData template)\<rparr>)"
    by (simp add: save_image_def obj) (simp add: example_env_def)
  have rd: "read_image (example_world_again\<lparr>files := (files example_world_again)
                 (temp_name (str ''1a2b3c4d'') \<mapsto> ImageData template)\<rparr>)
              (temp_name (str ''1a2b3c4d'')) = Inr template"
    by (simp add: read_image_def)
  have pl: "place_image (landscape letter) (img_size template)
            = Inr \<lparr>at_x = 0, at_y = 342 / 5, shown_width = 792, shown_height = 2376 / 5\<rparr>"
    by (simp add: place_image_def landscape_letter template_def)
  have cw: "can_write example_env (str ''Jane_Doe.pdf'')"
    by (simp add: example_env_def str_def)
  have first: "fst ?run = Some (str ''Jane_Doe.pdf'')"
    by (simp add: save_and_export_def sv name export_pdf_ok [OF rd pl cw] Let_def)
  then have run: "?run = (Some (str ''Jane_Doe.pdf''), snd ?run)"
    by (simp add: prod_eq_iff)
  from output_name_and_overwrite [of "str '' Jane Doe ''" example_env example_world_again 0
      "str ''1a2b3c4d''" "str ''Jane_Doe.pdf''" "snd ?run"] run
  have "\<exists>pl. files (snd ?run) (str ''Jane_Doe.pdf'')
          = Some (PdfData \<lparr>pagesize = (792, 612), page_image = objects example_world_again ! 0,
                            page_place = pl\<rparr>)"
    by blast
  then have "\<exists>pl. files (snd ?run) (str ''Jane_Doe.pdf'')
          = Some (PdfData \<lparr>pagesize = (792, 612), page_image = template, page_place = pl\<rparr>)"
    unfolding obj .
  with old first show ?thesis
    by blast
qed

text \<open>
  The difference does not show for the names the batch driver renders when they are ASCII:
  what the normalizer returns has no whitespace but the single spaces between its words,
  so replacing the spaces replaces all of it.
\<close>

lemma set_py_strip: "set (py_strip s) \<subseteq> set s"
proof
  fix c
  assume "c \<in> set (py_strip s)"
  then have "c \<in> set (dropWhile py_isspace (rev (dropWhile py_isspace s)))"
    by (simp add: py_strip_def)
  then have "c \<in> set (rev (dropWhile py_isspace s))"
    by (rule set_dropWhileD)
  then show "c \<in> set s"
    by (auto dest: set_dropWhileD)
qed

lemma names_agree_without_other_whitespace:
  assumes "\<forall>c\<in>set text. py_isspace c \<longrightarrow> c = 32"
  shows "output_pdf_name text = output_name_spec text"
proof -
  have "(if c = 32 then 95 else c) = (if py_isspace c then 95 else c)"
    if "c \<in> set (py_strip text)" for c :: nat
  proof (cases "c = 32")
    case True
    then show ?thesis by (simp add: py_isspace_def)
  next
    case False
    with that assms set_py_strip [of "text"] have "\<not> py_isspace c" by auto
    with False show ?thesis by simp
  qed
  then show ?thesis
    by (simp add: output_pdf_name_def output_name_spec_def py_replace_char_def)
qed

lemma set_py_join: "set (py_join sep ts) \<subseteq> set sep \<union> (\<Union>t\<in>set ts. set t)"
  by (induction sep ts rule: py_join.induct) auto

text \<open>
  For every ASCII string, the file name made from its normalized form is the one the
  specification describes.
\<close>

theorem normalized_name_meets_spec:
  assumes db: "ascii_casing db" and asc: "\<forall>c\<in>set s. c < 128"
  shows "output_pdf_name (title_case_name db s) = output_name_spec (title_case_name db s)"
proof (rule names_agree_without_other_whitespace, intro ballI impI)
  fix c
  assume c: "c \<in> set (title_case_name db s)" and sp: "py_isspace c"
  from c set_py_join [of "[32]" "map (capitalize db) (py_split s)"]
  consider "c = 32" | t where "t \<in> set (py_split s)" and "c \<in> set (capitalize db t)"
    by (auto simp: title_case_name_tokens)
  then show "c = 32"
  proof cases
    case 1
    then show ?thesis .
  next
    case 2
    from py_split_words [OF 2(1)] asc
    have "t \<noteq> []" and "\<forall>c\<in>set t. \<not> py_isspace c" and "\<forall>c\<in>set t. c < 128"
      by auto
    with capitalize_ascii_stable [OF db] 2(2) sp show ?thesis
      by blast
  qed
qed

theorem normalized_name_meets_spec_witness:
  "output_pdf_name (title_case_name ucd_fragment (str '' jane   doe'')) = str ''Jane_Doe.pdf''
   \<and> output_name_spec (title_case_name ucd_fragment (str '' jane   doe'')) = str ''Jane_Doe.pdf''"
proof -
  have asc: "\<forall>c\<in>set (str '' jane   doe''). c < 128"
    by (simp add: str_def)
  have run: "title_case_name ucd_fragment (str '' jane   doe'') = str ''Jane Doe''"
    by (simp add: title_case_name_tokens str_def py_isspace_def py_split_Cons
        py_split_Nil capitalize_def ucd_fragment_def ascii_upper_def ascii_lower_def
        upt_conv_Cons)
  have name: "output_pdf_name (str ''Jane Doe'') = str ''Jane_Doe.pdf''"
    by (simp add: output_pdf_name_def py_replace_char_def py_strip_def py_isspace_def str_def)
  from normalized_name_meets_spec [OF ascii_casing_fragment asc]
  have "output_name_spec (title_case_name ucd_fragment (str '' jane   doe''))
        = output_pdf_name (title_case_name ucd_fragment (str '' jane   doe''))"
    by simp
  with name show ?thesis
    by (simp add: run)
qed

section \<open>A render from end to end\<close>

text \<open>
  The template of 1000 by 600 pixels, the name \<open>Jane Doe\<close> at (500, 300): the render
  returns \<open>Jane_Doe.pdf\<close>, that file holds one landscape page with the template and the
  name on it, scaled to the width of the page, and the temporary image is gone.
\<close>

lemma example_render_end_to_end:
  "fst (add_text_to_image_and_convert_to_pdf example_env example_world (str ''cert.jpg'')
          (str ''Jane Doe'') (500, 300) None 36) = Some (str ''Jane_Doe.pdf'')
   \<and> files (snd (add_text_to_image_and_convert_to_pdf example_env example_world
                   (str ''cert.jpg'') (str ''Jane Doe'') (500, 300) None 36))
       (str ''Jane_Doe.pdf'')
     = Some (PdfData \<lparr>pagesize = (792, 612),
               page_image = template\<lparr>drawn := [DrawText (460, 300) (str ''Jane Doe'')
                                                  (str ''black'') DefaultFont]\<rparr>,
               page_place = \<lparr>at_x = 0, at_y = 342 / 5, shown_width = 792,
                              shown_height = 2376 / 5\<rparr>\<rparr>)
   \<and> files (snd (add_text_to_image_and_convert_to_pdf example_env example_world
                   (str ''cert.jpg'') (str ''Jane Doe'') (500, 300) None 36))
       (temp_name (str ''1a2b3c4d'')) = None"
proof -
  have uid: "uuid8 example_env n = str ''1a2b3c4d''" for n
    by (simp add: example_env_def)
  have fnt: "resolve_font example_env None 36 = (DefaultFont, [UsingPILDefaultFont])"
    by (simp add: resolve_font_def choose_font_def system_font_def truetype_def
        load_default_def default_font_def example_env_def str_def)
  show ?thesis
    by (simp add: add_text_to_image_and_convert_to_pdf_def uid composite_def image_open_def
        read_image_def image_copy_def fnt draw_centered_def example_measure draw_text_def
        print_all_def save_and_export_def save_image_def output_pdf_name_def
        py_replace_char_def py_strip_def py_isspace_def export_pdf_def place_image_def
        landscape_letter remove_temp_def temp_name_def example_world_def template_def
        Let_def str_def)
      (simp add: example_env_def)
qed

section \<open>Claims about the batch driver\<close>






text \<open>
  Claim C8. When the names file cannot be opened or read, the driver reports the error
  and stops: the world is the one it started with, so no render has run, both counters
  are zero, and no total was established. So for the driver as such and for both scripts.
\<close>

theorem unreadable_names_file_aborts:
  "process_names_from_file render db extra names_file w (Inl e)
     = (w, \<lparr>final_successful = 0, final_failed = 0, final_total = None,
             transcript = [ErrorProcessingNamesFile e]\<rparr>)
   \<and> (read_lines w0 names_file = Inl e \<longrightarrow>
        process_names_from_file_A en db w0 image_path names_file position font_path font_size
        = (w0, \<lparr>final_successful = 0, final_failed = 0, final_total = None,
                 transcript = [ErrorProcessingNamesFile e]\<rparr>)
        \<and> process_names_from_file_B en db w0 image_path names_file name_position
            name_font_size event_name event_position event_font_size
            rank rank_position rank_font_size
          = (w0, \<lparr>final_successful = 0, final_failed = 0, final_total = None,
                   transcript = [ErrorProcessingNamesFile e]\<rparr>))"
  by (simp add: process_names_from_file_def process_names_from_file_A_def
      process_names_from_file_B_def)

theorem unreadable_names_file_aborts_witness:
  "read_lines example_world (str ''nobody.txt'') = Inl FileNotFoundError
   \<and> process_names_from_file_A example_env ucd_fragment example_world (str ''cert.jpg'')
       (str ''nobody.txt'') (500, 300) None 30
     = (example_world, \<lparr>final_successful = 0, final_failed = 0, final_total = None,
                         transcript = [ErrorProcessingNamesFile FileNotFoundError]\<rparr>)
   \<and> read_lines example_world (str ''cert.jpg'') = Inl UnicodeDecodeError"
proof -
  have gone: "read_lines example_world (str ''nobody.txt'') = Inl FileNotFoundError"
    by (simp add: read_lines_def example_world_def str_def)
  have bad: "read_lines example_world (str ''cert.jpg'') = Inl UnicodeDecodeError"
    by (simp add: read_lines_def example_world_def str_def)
  from unreadable_names_file_aborts [of example_render ucd_fragment "[]" "str ''nobody.txt''" 0
      FileNotFoundError example_world example_env "str ''cert.jpg''" "(500, 300)" None 30
      "(500, 300)" 36 "str ''Expo''" "(500, 200)" 24 "str ''II''" "(500, 400)" 20] gone
  have "process_names_from_file_A example_env ucd_fragment example_world (str ''cert.jpg'')
          (str ''nobody.txt'') (500, 300) None 30
        = (example_world, \<lparr>final_successful = 0, final_failed = 0, final_total = None,
                            transcript = [ErrorProcessingNamesFile FileNotFoundError]\<rparr>)"
    by simp
  with gone bad show ?thesis
    by blast
qed

section \<open>Claims about the command line\<close>

text \<open>With at most two arguments, respectively at most nine, the usage text is all there is.\<close>

lemma main_prints_usage:
  "length argv < 4 \<Longrightarrow> main_A en db w argv = Inr (w, [Usage, UsageExample])"
  "length argv < 11 \<Longrightarrow> main_B en db w argv = Inr (w, [Usage])"
  by (simp_all add: main_A_def main_B_def)

text \<open>With all four required arguments, both of them numbers, the first script runs the batch.\<close>

lemma main_runs_with_four_arguments:
  assumes "int_of_str en a3 = Some x" and "int_of_str en a4 = Some y"
  shows "\<exists>w' printed. main_A en db w [a0, a1, a2, a3, a4] = Inr (w', printed)"
  using assms
  by (simp add: main_A_def and_then_def int_arg_def argv_at_def py_int_def split_beta)

text \<open>
  Claim C5 says that \<open>main\<close> prints the usage text and returns whenever a required
  argument is missing. The first script needs four arguments but checks for three: with
  the script name and three arguments the check passes, and reading the fourth raises
  \<open>IndexError\<close> (or \<open>ValueError\<close> before that, when the third is no number); nothing
  catches it. The second script needs thirteen arguments but checks for ten: with ten,
  eleven or twelve it ends the same way.
\<close>

theorem main_raises_on_missing_arguments:
  "main_A en db w [a0, a1, a2, a3] \<in> {Inl IndexError, Inl ValueError}
   \<and> main_A example_env ucd_fragment example_world
       [str ''script.py'', str ''cert.jpg'', str ''names.txt'', str ''500'']
     = Inl IndexError
   \<and> main_B en db w [b0, b1, b2, b3, b4, b5, b6, b7, b8, b9, b10]
     \<in> {Inl IndexError, Inl ValueError}
   \<and> main_B en db w [b0, b1, b2, b3, b4, b5, b6, b7, b8, b9, b10, b11]
     \<in> {Inl IndexError, Inl ValueError}
   \<and> main_B en db w [b0, b1, b2, b3, b4, b5, b6, b7, b8, b9, b10, b11, b12]
     \<in> {Inl IndexError, Inl ValueError}"
proof -
  have a: "main_A en db w [a0, a1, a2, a3] \<in> {Inl IndexError, Inl ValueError}"
    by (simp add: main_A_def and_then_def int_arg_def argv_at_def py_int_def
        split: option.splits)
  have a': "main_A example_env ucd_fragment example_world
              [str ''script.py'', str ''cert.jpg'', str ''names.txt'', str ''500'']
            = Inl IndexError"
    by (simp add: main_A_def and_then_def int_arg_def argv_at_def py_int_def example_env_def)
  have b10: "main_B en db w [b0, b1, b2, b3, b4, b5, b6, b7, b8, b9, b10]
             \<in> {Inl IndexError, Inl ValueError}"
    by (simp add: main_B_def and_then_def int_arg_def argv_at_def py_int_def
        split: option.splits)
  have b11: "main_B en db w [b0, b1, b2, b3, b4, b5, b6, b7, b8, b9, b10, b11]
             \<in> {Inl IndexError, Inl ValueError}"
    by (simp add: main_B_def and_then_def int_arg_def argv_at_def py_int_def
        split: option.splits)
  have b12: "main_B en db w [b0, b1, b2, b3, b4, b5, b6, b7, b8, b9, b10, b11, b12]
             \<in> {Inl IndexError, Inl ValueError}"
    by (simp add: main_B_def and_then_def int_arg_def argv_at_def py_int_def
        split: option.splits)
  from a a' b10 b11 b12 show ?thesis
    by blast
qed

end
